theory Spec2Isabelle
  imports Main
begin

section \<open>JavaScript values and the built-in operations the script relies on\<close>

text \<open>
  The catalog is whatever \<^verbatim>\<open>res.json()\<close> returns, so records are modelled as untyped
  JSON values, together with \<^verbatim>\<open>undefined\<close> for a property that is absent.

  \<^item> A string is the list of the bytes of its UTF-8 encoding (well-formed strings only: no
    lone surrogates), so \<^verbatim>\<open>encodeURIComponent\<close> works byte by byte and never raises.
  \<^item> A number is represented by the text that JavaScript's number-to-string conversion
    yields for it (\<^verbatim>\<open>0\<close> and \<^verbatim>\<open>-0\<close> both print as \<open>0\<close>); the script never computes
    with a number, it only tests its truthiness and prints it.
  \<^item> An object is an association list; the first binding of a key is the property.
\<close>

datatype jsval =
    JUndefined
  | JNull
  | JBool bool
  | JNum string
  | JStr string
  | JArr "jsval list"
  | JObj "(string \<times> jsval) list"

datatype js_error = TypeError

text \<open>JavaScript truthiness (\<^verbatim>\<open>if (v)\<close>, \<^verbatim>\<open>!v\<close>, the left operand of \<^verbatim>\<open>||\<close> and \<^verbatim>\<open>&&\<close>).\<close>

fun truthy :: "jsval \<Rightarrow> bool" where
  "truthy JUndefined = False"
| "truthy JNull = False"
| "truthy (JBool b) = b"
| "truthy (JNum s) = (s \<noteq> ''0'')"
| "truthy (JStr s) = (s \<noteq> [])"
| "truthy (JArr xs) = True"
| "truthy (JObj kvs) = True"

text \<open>\<^verbatim>\<open>a || b\<close>.\<close>

definition js_or :: "jsval \<Rightarrow> jsval \<Rightarrow> jsval" where
  "js_or a b = (if truthy a then a else b)"

text \<open>
  Property read \<^verbatim>\<open>v.k\<close>. Reading a property of \<^verbatim>\<open>null\<close> or \<^verbatim>\<open>undefined\<close> raises a
  TypeError. On an object the own property is returned. The property names the script
  reads on catalog elements and gallery entries (\<open>title\<close>, \<open>description\<close>, \<open>slug\<close>,
  \<open>tags\<close>, \<open>cover\<close>, \<open>src\<close>, \<open>alt\<close>) are not defined on the prototypes of strings,
  numbers, booleans or arrays, so there the read yields \<^verbatim>\<open>undefined\<close>. The other names
  (\<open>summary\<close>, \<open>link\<close>, \<open>repo\<close>, \<open>body\<close>, ...) are read only on the record that
  \<^verbatim>\<open>find\<close> returned, which is always an object (\<open>find_slug_record\<close> below).
\<close>

fun js_prop :: "jsval \<Rightarrow> string \<Rightarrow> jsval" where
  "js_prop (JObj kvs) k = (case map_of kvs k of None \<Rightarrow> JUndefined | Some v \<Rightarrow> v)"
| "js_prop v k = JUndefined"

fun get :: "jsval \<Rightarrow> string \<Rightarrow> js_error + jsval" where
  "get JUndefined k = Inl TypeError"
| "get JNull k = Inl TypeError"
| "get v k = Inr (js_prop v k)"

text \<open>Optional chaining \<^verbatim>\<open>v?.k\<close>: \<^verbatim>\<open>undefined\<close> instead of the TypeError.\<close>

definition opt_get :: "jsval \<Rightarrow> string \<Rightarrow> jsval" where
  "opt_get v k = js_prop v k"

text \<open>\<^verbatim>\<open>typeof v === 'string'\<close> and \<^verbatim>\<open>typeof v === 'object'\<close> (true of \<^verbatim>\<open>null\<close> and arrays too).\<close>

fun is_string :: "jsval \<Rightarrow> bool" where
  "is_string (JStr s) = True"
| "is_string v = False"

fun is_object :: "jsval \<Rightarrow> bool" where
  "is_object JNull = True"
| "is_object (JArr xs) = True"
| "is_object (JObj kvs) = True"
| "is_object v = False"

text \<open>\<^verbatim>\<open>v === s\<close> for a string \<open>s\<close>: strict equality, no conversion of either side.\<close>

fun eq_str :: "jsval \<Rightarrow> string \<Rightarrow> bool" where
  "eq_str (JStr t) s = (t = s)"
| "eq_str v s = False"

text \<open>
  The conversion to a string that a template literal, \<^verbatim>\<open>setAttribute\<close>, \<^verbatim>\<open>innerHTML\<close>
  and \<^verbatim>\<open>encodeURIComponent\<close> apply. An array prints as its elements joined by commas,
  \<^verbatim>\<open>null\<close> elements printing as nothing. A parsed object prints as \<open>[object Object]\<close>,
  unless it has an own property \<open>toString\<close>: that property is not callable, the inherited
  \<^verbatim>\<open>valueOf\<close> returns the object itself, and the conversion raises a TypeError.
\<close>

fun to_string :: "jsval \<Rightarrow> js_error + string"
  and join_comma :: "jsval list \<Rightarrow> js_error + string" where
  "to_string JUndefined = Inr ''undefined''"
| "to_string JNull = Inr ''null''"
| "to_string (JBool b) = Inr (if b then ''true'' else ''false'')"
| "to_string (JNum s) = Inr s"
| "to_string (JStr s) = Inr s"
| "to_string (JArr xs) = join_comma xs"
| "to_string (JObj kvs) =
     (if map_of kvs ''toString'' = None then Inr ''[object Object]'' else Inl TypeError)"
| "join_comma [] = Inr []"
| "join_comma (v # vs) =
     (case (if v = JNull \<or> v = JUndefined then Inr [] else to_string v) of
        Inl e \<Rightarrow> Inl e
      | Inr s \<Rightarrow>
          (if vs = [] then Inr s
           else (case join_comma vs of Inl e \<Rightarrow> Inl e | Inr t \<Rightarrow> Inr (s @ '','' @ t))))"

text \<open>
  Assignment to a nullable text attribute (\<^verbatim>\<open>node.textContent = v\<close>): \<^verbatim>\<open>null\<close> and
  \<^verbatim>\<open>undefined\<close> give the empty text, everything else is converted to a string.
\<close>

definition dom_text :: "jsval \<Rightarrow> js_error + string" where
  "dom_text v = (if v = JNull \<or> v = JUndefined then Inr [] else to_string v)"

text \<open>
  \<^verbatim>\<open>encodeURIComponent\<close>: letters, digits and \<^verbatim>\<open>- _ . ! ~ * ' ( )\<close> are kept; every other
  byte of the UTF-8 encoding becomes \<open>%XX\<close> with upper-case hexadecimal digits.
\<close>

definition unreserved :: "char \<Rightarrow> bool" where
  "unreserved c =
     (let n = (of_char c :: nat) in
        (65 \<le> n \<and> n \<le> 90) \<or> (97 \<le> n \<and> n \<le> 122) \<or> (48 \<le> n \<and> n \<le> 57)
        \<or> n \<in> {45, 95, 46, 33, 126, 42, 39, 40, 41})"

definition hex_digit :: "nat \<Rightarrow> char" where
  "hex_digit n = ''0123456789ABCDEF'' ! (n mod 16)"

definition percent :: "char \<Rightarrow> string" where
  "percent c =
     (let n = (of_char c :: nat) in [CHR ''%'', hex_digit (n div 16), hex_digit n])"

definition encodeURIComponent :: "string \<Rightarrow> string" where
  "encodeURIComponent s = concat (map (\<lambda>c. if unreserved c then [c] else percent c) s)"

text \<open>
  \<^verbatim>\<open>String.prototype.trim\<close>: white space and line terminators are removed from both ends.
  In UTF-8 these are the bytes 09-0D and 20, and the sequences of U+00A0, U+1680,
  U+2000-U+200A, U+2028, U+2029, U+202F, U+205F, U+3000 and U+FEFF.
\<close>

definition white_space :: "string list" where
  "white_space =
     [[CHR 0x09], [CHR 0x0A], [CHR 0x0B], [CHR 0x0C], [CHR 0x0D], [CHR 0x20],
      [CHR 0xC2, CHR 0xA0], [CHR 0xE1, CHR 0x9A, CHR 0x80],
      [CHR 0xE2, CHR 0x80, CHR 0x80], [CHR 0xE2, CHR 0x80, CHR 0x81],
      [CHR 0xE2, CHR 0x80, CHR 0x82], [CHR 0xE2, CHR 0x80, CHR 0x83],
      [CHR 0xE2, CHR 0x80, CHR 0x84], [CHR 0xE2, CHR 0x80, CHR 0x85],
      [CHR 0xE2, CHR 0x80, CHR 0x86], [CHR 0xE2, CHR 0x80, CHR 0x87],
      [CHR 0xE2, CHR 0x80, CHR 0x88], [CHR 0xE2, CHR 0x80, CHR 0x89],
      [CHR 0xE2, CHR 0x80, CHR 0x8A], [CHR 0xE2, CHR 0x80, CHR 0xA8],
      [CHR 0xE2, CHR 0x80, CHR 0xA9], [CHR 0xE2, CHR 0x80, CHR 0xAF],
      [CHR 0xE2, CHR 0x81, CHR 0x9F], [CHR 0xE3, CHR 0x80, CHR 0x80],
      [CHR 0xEF, CHR 0xBB, CHR 0xBF]]"

function strip_leading :: "string list \<Rightarrow> string \<Rightarrow> string" where
  "strip_leading ws s =
     (case find (\<lambda>w. w \<noteq> [] \<and> take (length w) s = w) ws of
        None \<Rightarrow> s
      | Some w \<Rightarrow> strip_leading ws (drop (length w) s))"
  by pat_completeness auto
termination
proof (relation "measure (\<lambda>(ws, s). length s)")
  show "wf (measure (\<lambda>(ws, s). length s))" by simp
next
  fix ws :: "string list" and s w :: string
  assume "find (\<lambda>w. w \<noteq> [] \<and> take (length w) s = w) ws = Some w"
  then have w: "w \<noteq> []" "take (length w) s = w"
    by (auto simp: find_Some_iff)
  then have "s \<noteq> []" by auto
  with w show "((ws, drop (length w) s), (ws, s)) \<in> measure (\<lambda>(ws, s). length s)"
    by simp
qed

definition trim :: "string \<Rightarrow> string" where
  "trim s = rev (strip_leading (map rev white_space) (rev (strip_leading white_space s)))"

text \<open>Sequencing of steps that may raise: the first error ends the computation.\<close>

definition bind_err :: "js_error + 'a \<Rightarrow> ('a \<Rightarrow> js_error + 'b) \<Rightarrow> js_error + 'b" where
  "bind_err m f = (case m of Inl e \<Rightarrow> Inl e | Inr x \<Rightarrow> f x)"

text \<open>\<^verbatim>\<open>xs.forEach(f)\<close>, collecting what each call produces, in order.\<close>

fun for_each :: "('a \<Rightarrow> js_error + 'b) \<Rightarrow> 'a list \<Rightarrow> js_error + 'b list" where
  "for_each f [] = Inr []"
| "for_each f (x # xs) =
     bind_err (f x) (\<lambda>y. bind_err (for_each f xs) (\<lambda>ys. Inr (y # ys)))"

section \<open>The page and the network\<close>

text \<open>
  The outcome of \<^verbatim>\<open>fetch('projects.json')\<close> followed by \<^verbatim>\<open>res.json()\<close>: the request is
  rejected, or a response arrives with a status and a payload that parses (\<open>Some\<close>) or
  does not (\<open>None\<close>). \<^verbatim>\<open>res.ok\<close> holds for the statuses 200 to 299.
\<close>

datatype fetch_outcome = NetworkError | Response nat "jsval option"

definition response_ok :: "nat \<Rightarrow> bool" where
  "response_ok status = (200 \<le> status \<and> status \<le> 299)"

text \<open>
  The \<^verbatim>\<open>try\<close> block shared by \<^verbatim>\<open>loadProjects\<close> and \<^verbatim>\<open>loadProjectDetail\<close>: \<open>None\<close> when
  control reaches the \<^verbatim>\<open>catch\<close> branch, else the parsed payload.
\<close>

definition fetch_projects :: "fetch_outcome \<Rightarrow> jsval option" where
  "fetch_projects net =
     (case net of
        NetworkError \<Rightarrow> None
      | Response status payload \<Rightarrow> if \<not> response_ok status then None else payload)"

text \<open>
  What the script builds in the document. Class names and inline styles only affect
  presentation and are left out. A card keeps the record its two listeners close over.
\<close>

record card =
  card_attrs :: "(string \<times> string) list"
  card_cover :: "(string \<times> string) option"
  card_title :: string
  card_desc :: string
  card_tags :: "string list"
  card_project :: jsval

record link_view =
  link_href :: string
  link_target :: string
  link_rel :: string
  link_text :: string

datatype meta_node = TagRow "string list" | LinkButton link_view

datatype body_node = Para string | RawHtml string

record gallery_item =
  item_href :: string
  item_target :: string
  item_rel :: string
  img_src :: string
  img_alt :: string

text \<open>
  The mount points the script looks up; \<open>None\<close> is an element the page does not have,
  \<open>Some\<close> holds the element's content. \<open>fetch_calls\<close> and \<open>warnings\<close> count the requests
  sent and the \<^verbatim>\<open>console.warn\<close> calls.
\<close>

record page =
  project_grid :: "card list option"
  project_article :: bool
  project_title :: "string option"
  project_summary :: "string option"
  project_meta :: "meta_node list option"
  project_body :: "body_node list option"
  project_gallery :: "gallery_item list option"
  document_title :: string
  fetch_calls :: nat
  warnings :: nat

text \<open>\<^verbatim>\<open>if (el) el.textContent = v\<close> and \<^verbatim>\<open>if (el) { ... }\<close>.\<close>

definition set_text :: "string option \<Rightarrow> jsval \<Rightarrow> js_error + string option" where
  "set_text el v =
     (case el of None \<Rightarrow> Inr None | Some old \<Rightarrow> bind_err (dom_text v) (\<lambda>s. Inr (Some s)))"

definition when_present :: "'a option \<Rightarrow> (js_error + 'a) \<Rightarrow> js_error + 'a option" where
  "when_present el build =
     (case el of None \<Rightarrow> Inr None | Some old \<Rightarrow> bind_err build (\<lambda>x. Inr (Some x)))"

section \<open>Projects loader: the landing page\<close>

text \<open>\<^verbatim>\<open>(p.tags || []).forEach(...)\<close>: only an array has \<^verbatim>\<open>forEach\<close>.\<close>

definition tag_pills :: "jsval \<Rightarrow> js_error + string list" where
  "tag_pills tags = (case tags of JArr ts \<Rightarrow> for_each dom_text ts | _ \<Rightarrow> Inl TypeError)"

text \<open>
  The body of the \<^verbatim>\<open>forEach\<close> of \<^verbatim>\<open>renderProjects\<close>. The first read \<^verbatim>\<open>p.title\<close> raises
  when \<open>p\<close> is \<^verbatim>\<open>null\<close>; after it \<open>p\<close> is known to have properties.
\<close>

definition card_of :: "jsval \<Rightarrow> js_error + card" where
  "card_of p =
     bind_err (get p ''title'') (\<lambda>title.
     bind_err (to_string title) (\<lambda>t.
     bind_err
       (if truthy (js_prop p ''cover'')
        then bind_err (to_string (js_prop p ''cover'')) (\<lambda>src. Inr (Some (src, t @ '' cover'')))
        else Inr None) (\<lambda>cover.
     bind_err (dom_text (js_or title (JStr ''Untitled''))) (\<lambda>h3.
     bind_err (dom_text (js_or (js_prop p ''description'') (JStr ''No description yet.'')))
       (\<lambda>desc.
     bind_err (tag_pills (js_or (js_prop p ''tags'') (JArr []))) (\<lambda>pills.
     Inr \<lparr>card_attrs =
            [(''tabindex'', ''0''), (''role'', ''link''),
             (''aria-label'', ''Open '' @ t @ '' project'')],
          card_cover = cover, card_title = h3, card_desc = desc, card_tags = pills,
          card_project = p\<rparr>))))))"

text \<open>The navigation \<^verbatim>\<open>go\<close> of a card, and its two listeners.\<close>

definition go :: "jsval \<Rightarrow> js_error + string" where
  "go p =
     bind_err (get p ''slug'') (\<lambda>slug.
     bind_err (to_string (js_or slug (JStr ''sample-project''))) (\<lambda>s.
     Inr (''project.html?id='' @ encodeURIComponent s)))"

record activation =
  default_prevented :: bool
  navigated :: "(js_error + string) option"

definition on_click :: "jsval \<Rightarrow> activation" where
  "on_click p = \<lparr>default_prevented = False, navigated = Some (go p)\<rparr>"

definition on_keydown :: "jsval \<Rightarrow> string \<Rightarrow> activation" where
  "on_keydown p key =
     (if key = ''Enter'' \<or> key = '' ''
      then \<lparr>default_prevented = True, navigated = Some (go p)\<rparr>
      else \<lparr>default_prevented = False, navigated = None\<rparr>)"

text \<open>\<^verbatim>\<open>renderProjects\<close>: the grid is emptied, then one card is appended per element.\<close>

definition renderProjects :: "jsval \<Rightarrow> card list \<Rightarrow> js_error + card list" where
  "renderProjects projects grid =
     (case projects of JArr ps \<Rightarrow> for_each card_of ps | _ \<Rightarrow> Inl TypeError)"

definition sample_project :: jsval where
  "sample_project =
     JObj [(''title'', JStr ''Sample Project''),
           (''description'', JStr ''Replace projects.json to populate real projects.''),
           (''slug'', JStr ''sample-project''),
           (''tags'', JArr [JStr ''demo'', JStr ''starter'']),
           (''cover'', JStr [])]"

definition fallback_projects :: jsval where
  "fallback_projects = JArr [sample_project]"

definition loadProjects :: "page \<Rightarrow> fetch_outcome \<Rightarrow> js_error + page" where
  "loadProjects pg net =
     (case project_grid pg of
        None \<Rightarrow> Inr pg
      | Some grid \<Rightarrow>
          (case fetch_projects net of
             None \<Rightarrow>
               bind_err (renderProjects fallback_projects grid) (\<lambda>cards.
               Inr (pg\<lparr>project_grid := Some cards, fetch_calls := fetch_calls pg + 1,
                        warnings := warnings pg + 1\<rparr>))
           | Some projects \<Rightarrow>
               bind_err (renderProjects projects grid) (\<lambda>cards.
               Inr (pg\<lparr>project_grid := Some cards, fetch_calls := fetch_calls pg + 1\<rparr>))))"

section \<open>Project detail page\<close>

text \<open>
  \<^verbatim>\<open>data.find(x => (x.slug || '') === id)\<close>: the first element whose slug, or the empty
  string when the slug is falsy, is strictly equal to the id; \<^verbatim>\<open>undefined\<close> when there is
  none. Only an array has \<^verbatim>\<open>find\<close>, and reading the slug of \<^verbatim>\<open>null\<close> raises.
\<close>

fun find_slug :: "string \<Rightarrow> jsval list \<Rightarrow> js_error + jsval" where
  "find_slug i [] = Inr JUndefined"
| "find_slug i (x # xs) =
     bind_err (get x ''slug'') (\<lambda>slug.
     if eq_str (js_or slug (JStr [])) i then Inr x else find_slug i xs)"

definition find_project :: "jsval \<Rightarrow> string \<Rightarrow> js_error + jsval" where
  "find_project data i = (case data of JArr xs \<Rightarrow> find_slug i xs | _ \<Rightarrow> Inl TypeError)"

text \<open>The meta area: the tags row when there are tags, then the live link, then the repository link.\<close>

definition external_link :: "string \<Rightarrow> string \<Rightarrow> meta_node" where
  "external_link url label =
     LinkButton \<lparr>link_href = url, link_target = ''_blank'',
                 link_rel = ''noopener noreferrer'', link_text = label\<rparr>"

definition render_meta :: "jsval \<Rightarrow> js_error + meta_node list" where
  "render_meta p =
     bind_err
       (case js_prop p ''tags'' of
          JArr ts \<Rightarrow>
            if ts \<noteq> [] then bind_err (for_each dom_text ts) (\<lambda>pills. Inr [TagRow pills])
            else Inr []
        | _ \<Rightarrow> Inr []) (\<lambda>row.
     bind_err
       (if truthy (js_prop p ''link'')
        then bind_err (to_string (js_prop p ''link''))
               (\<lambda>url. Inr [external_link url ''View Live''])
        else Inr []) (\<lambda>live.
     bind_err
       (if truthy (js_prop p ''repo'')
        then bind_err (to_string (js_prop p ''repo''))
               (\<lambda>url. Inr [external_link url ''Source Code''])
        else Inr []) (\<lambda>repo.
     Inr (row @ live @ repo))))"

text \<open>The long-form body: the first of the four shapes that applies.\<close>

definition render_body :: "jsval \<Rightarrow> js_error + body_node list" where
  "render_body p =
     (case js_prop p ''body'' of
        JArr pars \<Rightarrow> bind_err (for_each dom_text pars) (\<lambda>texts. Inr (map Para texts))
      | _ \<Rightarrow>
          if truthy (js_prop p ''bodyHtml'')
          then bind_err (to_string (js_prop p ''bodyHtml'')) (\<lambda>markup. Inr [RawHtml markup])
          else if truthy (js_prop p ''long'')
          then bind_err (dom_text (js_prop p ''long'')) (\<lambda>text. Inr [Para text])
          else if truthy (js_prop p ''description'')
          then bind_err (dom_text (js_prop p ''description'')) (\<lambda>text. Inr [Para text])
          else Inr [])"

text \<open>
  One step of the gallery loop, for the entry \<open>it\<close> of a record whose raw title is
  \<open>title\<close>: \<open>None\<close> when the entry is skipped. The alt text is computed before the test
  on \<open>src\<close>, as in the source.
\<close>

definition gallery_entry :: "jsval \<Rightarrow> jsval \<Rightarrow> js_error + gallery_item option" where
  "gallery_entry title it =
     (let src = (if is_string it then it else opt_get it ''src'') in
      bind_err
        (if is_object it \<and> truthy (opt_get it ''alt'') then Inr (js_prop it ''alt'')
         else bind_err (to_string title) (\<lambda>t. Inr (JStr (t @ '' image'')))) (\<lambda>alt.
      if \<not> truthy src then Inr None
      else
        bind_err (to_string src) (\<lambda>url.
        bind_err (to_string alt) (\<lambda>alt_text.
        Inr (Some \<lparr>item_href = url, item_target = ''_blank'',
                   item_rel = ''noopener noreferrer'', img_src = url,
                   img_alt = alt_text\<rparr>)))))"

definition render_gallery :: "jsval \<Rightarrow> js_error + gallery_item list" where
  "render_gallery p =
     (let imgs = (case js_prop p ''images'' of JArr its \<Rightarrow> its | _ \<Rightarrow> []) in
      bind_err (for_each (gallery_entry (js_prop p ''title'')) imgs) (\<lambda>made.
      Inr (List.map_filter (\<lambda>m. m) made)))"

text \<open>The texts of the three short-circuit states and of the tab title.\<close>

definition ellipsis :: string where
  "ellipsis = [CHR 0xE2, CHR 0x80, CHR 0xA6]"

definition bullet :: string where
  "bullet = [CHR 0xE2, CHR 0x80, CHR 0xA2]"

definition not_found_summary :: "string \<Rightarrow> string" where
  "not_found_summary i = ''No project with id='' @ [CHR 0x22] @ i @ [CHR 0x22] @ ''.''"

definition show_message :: "string \<Rightarrow> string \<Rightarrow> page \<Rightarrow> page" where
  "show_message title summary pg =
     pg\<lparr>project_title := map_option (\<lambda>old. title) (project_title pg),
        project_summary := map_option (\<lambda>old. summary) (project_summary pg)\<rparr>"

text \<open>The full render of a resolved record \<open>p\<close> (lines 200 to 305 of the script).\<close>

definition render_detail :: "jsval \<Rightarrow> page \<Rightarrow> js_error + page" where
  "render_detail p pg =
     bind_err (set_text (project_title pg) (js_or (js_prop p ''title'') (JStr ''Untitled project'')))
       (\<lambda>title.
     bind_err (to_string (js_or (js_prop p ''title'') (JStr ''Project''))) (\<lambda>tab.
     bind_err
       (set_text (project_summary pg)
          (js_or (js_or (js_prop p ''summary'') (js_prop p ''description'')) (JStr [])))
       (\<lambda>summary.
     bind_err (when_present (project_meta pg) (render_meta p)) (\<lambda>meta.
     bind_err (when_present (project_body pg) (render_body p)) (\<lambda>body.
     bind_err (when_present (project_gallery pg) (render_gallery p)) (\<lambda>gallery.
     Inr (pg\<lparr>project_title := title,
              document_title := tab @ '' '' @ bullet @ '' My Portfolio'',
              project_summary := summary, project_meta := meta, project_body := body,
              project_gallery := gallery\<rparr>)))))))"

text \<open>
  \<^verbatim>\<open>loadProjectDetail\<close>. The helper \<^verbatim>\<open>getParam\<close> is defined in project.html, not in the
  script, so it is a parameter: \<open>None\<close> when no such function exists, else the function
  from a parameter name to its value in the URL (\<open>None\<close> for \<^verbatim>\<open>null\<close>). \<open>Inl\<close> is an
  exception that leaves the entry point (a rejected promise).
\<close>

definition not_specified :: "page \<Rightarrow> page" where
  "not_specified pg =
     show_message ''Project not specified'' (''Missing ?id='' @ ellipsis @ '' in the URL.'') pg"

text \<open>\<^verbatim>\<open>(typeof getParam === 'function') ? getParam('id') : null\<close>.\<close>

definition requested_id :: "(string \<Rightarrow> string option) option \<Rightarrow> string option" where
  "requested_id getParam = (case getParam of None \<Rightarrow> None | Some f \<Rightarrow> f ''id'')"

definition loadProjectDetail ::
  "page \<Rightarrow> (string \<Rightarrow> string option) option \<Rightarrow> fetch_outcome \<Rightarrow> js_error + page" where
  "loadProjectDetail pg getParam net =
     (if \<not> project_article pg then Inr pg
      else
        (case requested_id getParam of
           None \<Rightarrow> Inr (not_specified pg)
         | Some i \<Rightarrow>
             if i = [] then Inr (not_specified pg)
             else
               (case fetch_projects net of
                  None \<Rightarrow>
                    Inr ((show_message ''Error loading project''
                            ''Could not fetch projects.json.'' pg)
                           \<lparr>fetch_calls := fetch_calls pg + 1, warnings := warnings pg + 1\<rparr>)
                | Some data \<Rightarrow>
                    bind_err (find_project data i) (\<lambda>p.
                    if \<not> truthy p then
                      Inr ((show_message ''Project not found'' (not_found_summary i) pg)
                             \<lparr>fetch_calls := fetch_calls pg + 1\<rparr>)
                    else render_detail p (pg\<lparr>fetch_calls := fetch_calls pg + 1\<rparr>)))))"

section \<open>Contact form\<close>

text \<open>
  The form as the submit listener sees it: the value of each field (\<open>None\<close> when the
  field is not in the page) and the label of the submit button, if there is one.
\<close>

record contact_form =
  name_field :: "string option"
  email_field :: "string option"
  message_field :: "string option"
  submit_button :: "string option"

text \<open>
  What one submit event does: the alerts shown, the location navigated to, and what the
  listener sets on the button (disabled flag and label; \<open>None\<close> when it does not touch a
  button; the timer that restores the button 2.5 seconds later is not modelled).
\<close>

record submission =
  submit_prevented :: bool
  alerts :: "string list"
  location :: "string option"
  button_after :: "(bool \<times> string) option"

definition TO_EMAIL :: string where
  "TO_EMAIL = ''you@example.com''"

text \<open>\<^verbatim>\<open>$('#name')?.value.trim() || ''\<close>.\<close>

definition field_value :: "string option \<Rightarrow> string" where
  "field_value f = (case f of None \<Rightarrow> [] | Some v \<Rightarrow> trim v)"

text \<open>\<^verbatim>\<open>lines.join('\n')\<close>.\<close>

fun join_lines :: "string list \<Rightarrow> string" where
  "join_lines [] = []"
| "join_lines [l] = l"
| "join_lines (l # ls) = l @ [CHR 0x0A] @ join_lines ls"

definition mailto_of :: "string \<Rightarrow> string \<Rightarrow> string \<Rightarrow> string" where
  "mailto_of name email message =
     (let subject = ''Portfolio contact from '' @ name;
          body = join_lines [''Name: '' @ name, ''Email: '' @ email, [], ''Message:'', message]
      in ''mailto:'' @ encodeURIComponent TO_EMAIL @ ''?subject='' @ encodeURIComponent subject
           @ ''&body='' @ encodeURIComponent body)"

definition on_submit :: "contact_form \<Rightarrow> submission" where
  "on_submit form =
     (let name = field_value (name_field form);
          email = field_value (email_field form);
          message = field_value (message_field form)
      in if name = [] \<or> email = [] \<or> message = [] then
           \<lparr>submit_prevented = True, alerts = [''Please complete all fields.''],
            location = None, button_after = None\<rparr>
         else
           \<lparr>submit_prevented = True, alerts = [],
            location = Some (mailto_of name email message),
            button_after =
              map_option (\<lambda>label. (True, ''Opening your email client'' @ ellipsis))
                (submit_button form)\<rparr>)"

section \<open>Records that follow the data model\<close>

text \<open>
  The data model types every scalar field of a record as an optional string and \<open>tags\<close>
  as an optional sequence of strings. The predicates below say that a parsed value has
  that shape; the functions read such a field the way the specification words it.
\<close>

fun optional_text :: "jsval \<Rightarrow> bool" where
  "optional_text JUndefined = True"
| "optional_text (JStr s) = True"
| "optional_text v = False"

fun text_of :: "jsval \<Rightarrow> string" where
  "text_of (JStr s) = s"
| "text_of v = []"

text \<open>The field's text, or the fallback \<open>d\<close> when the field is absent or empty.\<close>

definition text_or :: "string \<Rightarrow> jsval \<Rightarrow> string" where
  "text_or d v = (if text_of v = [] then d else text_of v)"

fun is_array :: "jsval \<Rightarrow> bool" where
  "is_array (JArr xs) = True"
| "is_array v = False"

fun elements :: "jsval \<Rightarrow> jsval list" where
  "elements (JArr xs) = xs"
| "elements v = []"

fun is_record :: "jsval \<Rightarrow> bool" where
  "is_record (JObj kvs) = True"
| "is_record v = False"

text \<open>A record as the landing page needs it.\<close>

definition card_record :: "jsval \<Rightarrow> bool" where
  "card_record p =
     (is_record p \<and> optional_text (js_prop p ''title'')
      \<and> optional_text (js_prop p ''description'') \<and> optional_text (js_prop p ''cover'')
      \<and> (js_prop p ''tags'' = JUndefined \<or> is_array (js_prop p ''tags''))
      \<and> list_all is_string (elements (js_prop p ''tags'')))"

text \<open>
  The card of such a record. A template literal prints an absent title as \<open>undefined\<close>.
\<close>

definition printed :: "jsval \<Rightarrow> string" where
  "printed v = (case v of JStr s \<Rightarrow> s | _ \<Rightarrow> ''undefined'')"

definition card_view :: "jsval \<Rightarrow> card" where
  "card_view p =
     \<lparr>card_attrs =
        [(''tabindex'', ''0''), (''role'', ''link''),
         (''aria-label'', ''Open '' @ printed (js_prop p ''title'') @ '' project'')],
      card_cover =
        (if text_of (js_prop p ''cover'') = [] then None
         else Some (text_of (js_prop p ''cover''), printed (js_prop p ''title'') @ '' cover'')),
      card_title = text_or ''Untitled'' (js_prop p ''title''),
      card_desc = text_or ''No description yet.'' (js_prop p ''description''),
      card_tags = map text_of (elements (js_prop p ''tags'')),
      card_project = p\<rparr>"

text \<open>
  A gallery entry: a string, or an object whose \<open>src\<close> and \<open>alt\<close> are optional strings.
  Any other entry has no \<open>src\<close> to resolve.
\<close>

definition image_entry :: "jsval \<Rightarrow> bool" where
  "image_entry it =
     (is_record it \<longrightarrow> optional_text (js_prop it ''src'') \<and> optional_text (js_prop it ''alt''))"

text \<open>
  A record as the detail page needs it. \<open>body\<close> and \<open>images\<close> may be absent or of any
  other type than an array; when they are arrays their entries are typed.
\<close>

definition detail_record :: "jsval \<Rightarrow> bool" where
  "detail_record p =
     (is_record p \<and> optional_text (js_prop p ''title'')
      \<and> optional_text (js_prop p ''summary'') \<and> optional_text (js_prop p ''description'')
      \<and> optional_text (js_prop p ''link'') \<and> optional_text (js_prop p ''repo'')
      \<and> optional_text (js_prop p ''bodyHtml'') \<and> optional_text (js_prop p ''long'')
      \<and> list_all is_string (elements (js_prop p ''tags''))
      \<and> list_all is_string (elements (js_prop p ''body''))
      \<and> list_all image_entry (elements (js_prop p ''images'')))"

text \<open>
  The record's identifier in the words of the specification: its slug, the empty string
  when the slug is absent.
\<close>

definition record_id :: "jsval \<Rightarrow> string" where
  "record_id x = text_of (js_prop x ''slug'')"

definition slug_record :: "jsval \<Rightarrow> bool" where
  "slug_record x = (is_record x \<and> optional_text (js_prop x ''slug''))"

text \<open>
  The gallery in the words of the specification, for a title that prints as \<open>t\<close>: the
  \<open>src\<close> an entry resolves to, if any, and the entries rendered.
\<close>

definition resolved_src :: "jsval \<Rightarrow> string option" where
  "resolved_src it =
     (let s = (if is_string it then text_of it else text_of (js_prop it ''src''))
      in if s = [] then None else Some s)"

definition gallery_view :: "string \<Rightarrow> jsval \<Rightarrow> gallery_item option" where
  "gallery_view t it =
     (case resolved_src it of
        None \<Rightarrow> None
      | Some src \<Rightarrow>
          Some \<lparr>item_href = src, item_target = ''_blank'', item_rel = ''noopener noreferrer'',
                img_src = src, img_alt = text_or (t @ '' image'') (js_prop it ''alt'')\<rparr>)"

text \<open>
  The body in the words of the specification: the paragraphs of \<open>body\<close> when it is an
  array, else the markup of \<open>bodyHtml\<close>, else \<open>long\<close>, else \<open>description\<close>, each when
  present with some text, else nothing.
\<close>

definition body_view :: "jsval \<Rightarrow> body_node list" where
  "body_view p =
     (if is_array (js_prop p ''body'') then map (\<lambda>x. Para (text_of x)) (elements (js_prop p ''body''))
      else if text_of (js_prop p ''bodyHtml'') \<noteq> [] then [RawHtml (text_of (js_prop p ''bodyHtml''))]
      else if text_of (js_prop p ''long'') \<noteq> [] then [Para (text_of (js_prop p ''long''))]
      else if text_of (js_prop p ''description'') \<noteq> []
      then [Para (text_of (js_prop p ''description''))]
      else [])"



text \<open>
  The detail page of a request that names a record: the page has the article, the URL
  carries a non-empty id, the catalog arrives, and \<open>p\<close> is the record found for the id.
\<close>

definition resolves_to ::
  "page \<Rightarrow> (string \<Rightarrow> string option) option \<Rightarrow> fetch_outcome \<Rightarrow> jsval \<Rightarrow> bool" where
  "resolves_to pg getParam net p =
     (project_article pg \<and>
      (case requested_id getParam of
         None \<Rightarrow> False
       | Some i \<Rightarrow>
           i \<noteq> [] \<and>
           (case fetch_projects net of
              None \<Rightarrow> False
            | Some data \<Rightarrow> find_project data i = Inr p \<and> truthy p)))"

section \<open>Basic facts about typed fields\<close>

lemmas js_eval = bind_err_def dom_text_def js_or_def tag_pills_def set_text_def when_present_def

lemmas enc_eval = encodeURIComponent_def unreserved_def percent_def hex_digit_def

lemma optional_text_cases:
  "optional_text v \<Longrightarrow> v = JUndefined \<or> (\<exists>s. v = JStr s)"
  by (cases v) auto

lemma is_string_cases: "is_string v \<Longrightarrow> \<exists>s. v = JStr s"
  by (cases v) auto

lemma is_record_cases: "is_record v \<Longrightarrow> \<exists>kvs. v = JObj kvs"
  by (cases v) auto

lemma dom_text_fallback:
  "optional_text v \<Longrightarrow> d \<noteq> [] \<Longrightarrow> dom_text (js_or v (JStr d)) = Inr (text_or d v)"
  by (auto dest!: optional_text_cases simp: dom_text_def js_or_def text_or_def)

lemma to_string_fallback:
  "optional_text v \<Longrightarrow> d \<noteq> [] \<Longrightarrow> to_string (js_or v (JStr d)) = Inr (text_or d v)"
  by (auto dest!: optional_text_cases simp: js_or_def text_or_def)

lemma truthy_text: "optional_text v \<Longrightarrow> truthy v = (text_of v \<noteq> [])"
  by (auto dest!: optional_text_cases)

lemma to_string_text: "optional_text v \<Longrightarrow> truthy v \<Longrightarrow> to_string v = Inr (text_of v)"
  by (auto dest!: optional_text_cases)

lemma dom_text_text: "optional_text v \<Longrightarrow> truthy v \<Longrightarrow> dom_text v = Inr (text_of v)"
  by (auto dest!: optional_text_cases simp: dom_text_def)

lemma for_each_texts:
  "list_all is_string ts \<Longrightarrow> for_each dom_text ts = Inr (map text_of ts)"
  by (induction ts) (auto dest!: is_string_cases simp: bind_err_def dom_text_def)

lemma for_each_map:
  "(\<And>x. x \<in> set xs \<Longrightarrow> f x = Inr (g x)) \<Longrightarrow> for_each f xs = Inr (map g xs)"
  by (induction xs) (auto simp: bind_err_def)

section \<open>Submitting the contact form\<close>

text \<open>
  Claim C9. A submission needs name, email and message to be non-empty after trimming.
  If one of them is empty, exactly one alert is shown and the location is not changed.
  Otherwise no alert is shown and the location becomes the mailto target: the encoded
  recipient, the encoded subject \<open>Portfolio contact from <name>\<close>, and the encoded body
  made of the lines \<open>Name: <name>\<close>, \<open>Email: <email>\<close>, an empty line, \<open>Message:\<close> and the
  message, joined by newlines.
\<close>

theorem contact_submission:
  assumes "name_field f = Some n" and "email_field f = Some e" and "message_field f = Some m"
  shows "(trim n = [] \<or> trim e = [] \<or> trim m = [] \<longrightarrow>
            alerts (on_submit f) = [''Please complete all fields.'']
            \<and> location (on_submit f) = None)
       \<and> (trim n \<noteq> [] \<and> trim e \<noteq> [] \<and> trim m \<noteq> [] \<longrightarrow>
            alerts (on_submit f) = []
            \<and> location (on_submit f) =
                Some (''mailto:you%40example.com?subject=''
                      @ encodeURIComponent (''Portfolio contact from '' @ trim n)
                      @ ''&body=''
                      @ encodeURIComponent
                          (''Name: '' @ trim n @ [CHR 0x0A] @ ''Email: '' @ trim e
                           @ [CHR 0x0A] @ [CHR 0x0A] @ ''Message:'' @ [CHR 0x0A] @ trim m)))"
  using assms
  by (simp add: on_submit_def field_value_def mailto_of_def TO_EMAIL_def Let_def enc_eval)

text \<open>
  The claim's example (an empty message with a name and an email), and a complete form
  whose fields carry surrounding white space.
\<close>

theorem contact_submission_witness:
  "alerts (on_submit \<lparr>name_field = Some ''Ada'', email_field = Some ''ada@example.org'',
                      message_field = Some [], submit_button = None\<rparr>)
     = [''Please complete all fields.'']
   \<and> location (on_submit \<lparr>name_field = Some ''Ada'', email_field = Some ''ada@example.org'',
                          message_field = Some [], submit_button = None\<rparr>) = None
   \<and> alerts (on_submit \<lparr>name_field = Some '' Ada '', email_field = Some ''ada@example.org'',
                        message_field = Some ''Hi there'', submit_button = None\<rparr>) = []
   \<and> location (on_submit \<lparr>name_field = Some '' Ada '', email_field = Some ''ada@example.org'',
                          message_field = Some ''Hi there'', submit_button = None\<rparr>)
     = Some (''mailto:you%40example.com?subject=Portfolio%20contact%20from%20Ada''
             @ ''&body=Name%3A%20Ada%0AEmail%3A%20ada%40example.org%0A%0AMessage%3A%0AHi%20there'')"
proof -
  have t: "trim ''Ada'' = ''Ada''" "trim '' Ada '' = ''Ada''" "trim [] = []"
    "trim ''ada@example.org'' = ''ada@example.org''" "trim ''Hi there'' = ''Hi there''"
    by (simp_all add: trim_def white_space_def)
  show ?thesis
    using contact_submission
            [of "\<lparr>name_field = Some ''Ada'', email_field = Some ''ada@example.org'',
                  message_field = Some [], submit_button = None\<rparr>"
                "''Ada''" "''ada@example.org''" "[]"]
          contact_submission
            [of "\<lparr>name_field = Some '' Ada '', email_field = Some ''ada@example.org'',
                  message_field = Some ''Hi there'', submit_button = None\<rparr>"
                "'' Ada ''" "''ada@example.org''" "''Hi there''"]
    by (simp add: t enc_eval)
qed

section \<open>Cards\<close>

lemma card_of_captures:
  "card_of p = Inr c \<Longrightarrow> card_project c = p \<and> get p ''slug'' = Inr (js_prop p ''slug'')"
  by (cases p) (auto simp: card_of_def bind_err_def split: sum.splits if_splits)

text \<open>
  Claim C8. For every card the script builds (\<open>card_of p\<close> returns the card \<open>c\<close>), a
  click, the Enter key and the Space key all run the same navigation \<open>go p\<close>, and both
  keys suppress the default action. The navigation goes to \<open>project.html?id=\<close> followed
  by the percent-encoded slug, and to \<open>project.html?id=sample-project\<close> when the record
  has no slug.
\<close>

theorem card_activation:
  assumes "card_of p = Inr c"
  shows "navigated (on_click (card_project c)) = Some (go p)
       \<and> on_keydown (card_project c) ''Enter''
           = \<lparr>default_prevented = True, navigated = Some (go p)\<rparr>
       \<and> on_keydown (card_project c) '' ''
           = \<lparr>default_prevented = True, navigated = Some (go p)\<rparr>
       \<and> (\<forall>s. js_prop p ''slug'' = JStr s \<and> s \<noteq> [] \<longrightarrow>
              go p = Inr (''project.html?id='' @ encodeURIComponent s))
       \<and> (js_prop p ''slug'' = JUndefined \<longrightarrow> go p = Inr ''project.html?id=sample-project'')"
  using card_of_captures [OF assms]
  by (simp add: on_click_def on_keydown_def go_def js_eval enc_eval)

theorem card_activation_witness:
  "navigated (on_click (JObj [(''title'', JStr ''My App''), (''slug'', JStr ''my app/1'')]))
     = Some (Inr ''project.html?id=my%20app%2F1'')
   \<and> on_keydown (JObj [(''title'', JStr ''My App''), (''slug'', JStr ''my app/1'')]) '' ''
     = \<lparr>default_prevented = True, navigated = Some (Inr ''project.html?id=my%20app%2F1'')\<rparr>
   \<and> on_keydown (JObj [(''title'', JStr ''My App''), (''slug'', JStr ''my app/1'')]) ''Enter''
     = \<lparr>default_prevented = True, navigated = Some (Inr ''project.html?id=my%20app%2F1'')\<rparr>
   \<and> navigated (on_click (JObj [(''title'', JStr ''No slug'')]))
     = Some (Inr ''project.html?id=sample-project'')"
proof -
  let ?p = "JObj [(''title'', JStr ''My App''), (''slug'', JStr ''my app/1'')]"
  let ?q = "JObj [(''title'', JStr ''No slug'')]"
  have p: "card_of ?p =
      Inr \<lparr>card_attrs = [(''tabindex'', ''0''), (''role'', ''link''),
                          (''aria-label'', ''Open My App project'')],
           card_cover = None, card_title = ''My App'', card_desc = ''No description yet.'',
           card_tags = [], card_project = ?p\<rparr>"
    by (simp add: card_of_def js_eval)
  have q: "card_of ?q =
      Inr \<lparr>card_attrs = [(''tabindex'', ''0''), (''role'', ''link''),
                          (''aria-label'', ''Open No slug project'')],
           card_cover = None, card_title = ''No slug'', card_desc = ''No description yet.'',
           card_tags = [], card_project = ?q\<rparr>"
    by (simp add: card_of_def js_eval)
  show ?thesis
    using card_activation [OF p] card_activation [OF q]
    by (simp add: enc_eval)
qed

lemma to_string_printed: "optional_text v \<Longrightarrow> to_string v = Inr (printed v)"
  by (auto dest!: optional_text_cases simp: printed_def)

lemma tag_pills_record:
  assumes "v = JUndefined \<or> is_array v" and "list_all is_string (elements v)"
  shows "tag_pills (js_or v (JArr [])) = Inr (map text_of (elements v))"
proof (cases v)
  case (JArr ts)
  with assms(2) show ?thesis
    by (simp add: tag_pills_def js_or_def for_each_texts)
qed (use assms in \<open>auto simp: tag_pills_def js_or_def\<close>)

lemma card_of_view:
  assumes "card_record p"
  shows "card_of p = Inr (card_view p)"
proof -
  from assms obtain kvs where p: "p = JObj kvs"
    by (auto simp: card_record_def dest: is_record_cases)
  have g: "get p ''title'' = Inr (js_prop p ''title'')"
    by (simp add: p)
  have t: "optional_text (js_prop p ''title'')" and d: "optional_text (js_prop p ''description'')"
    and c: "optional_text (js_prop p ''cover'')"
    and tg: "tag_pills (js_or (js_prop p ''tags'') (JArr []))
               = Inr (map text_of (elements (js_prop p ''tags'')))"
    using assms by (auto simp: card_record_def intro: tag_pills_record)
  show ?thesis
    unfolding card_of_def g
    by (simp add: bind_err_def to_string_printed [OF t] dom_text_fallback [OF t]
          dom_text_fallback [OF d] tg truthy_text [OF c] to_string_text [OF c] card_view_def)
qed

lemma renderProjects_view:
  assumes "list_all card_record ps"
  shows "renderProjects (JArr ps) grid = Inr (map card_view ps)"
  using assms
  by (simp add: renderProjects_def for_each_map card_of_view list_all_iff)

text \<open>
  Claim C6. For every catalog array of records, \<open>renderProjects\<close> returns exactly one card
  per record, in catalog order (the cards' records are the catalog itself), and each card
  carries the record's title, or \<open>Untitled\<close> when it is absent, its description, or
  \<open>No description yet.\<close> when it is absent, and its tags in order.
\<close>

theorem one_card_per_record:
  assumes "list_all card_record ps"
  shows "\<exists>cards. renderProjects (JArr ps) grid = Inr cards
           \<and> length cards = length ps
           \<and> map card_project cards = ps
           \<and> map card_title cards = map (\<lambda>p. text_or ''Untitled'' (js_prop p ''title'')) ps
           \<and> map card_desc cards
               = map (\<lambda>p. text_or ''No description yet.'' (js_prop p ''description'')) ps
           \<and> map card_tags cards = map (\<lambda>p. map text_of (elements (js_prop p ''tags''))) ps"
  using renderProjects_view [OF assms, of grid]
  by (simp add: card_view_def comp_def)

theorem one_card_per_record_witness:
  "list_all card_record
     [JObj [(''title'', JStr ''A''), (''tags'', JArr [JStr ''x'', JStr ''y''])],
      JObj [(''description'', JStr ''d'')]]
   \<and> (\<exists>cards.
        renderProjects
          (JArr [JObj [(''title'', JStr ''A''), (''tags'', JArr [JStr ''x'', JStr ''y''])],
                 JObj [(''description'', JStr ''d'')]]) [] = Inr cards
        \<and> length cards = 2
        \<and> map card_title cards = [''A'', ''Untitled'']
        \<and> map card_desc cards = [''No description yet.'', ''d'']
        \<and> map card_tags cards = [[''x'', ''y''], []])"
proof -
  have r: "list_all card_record
     [JObj [(''title'', JStr ''A''), (''tags'', JArr [JStr ''x'', JStr ''y''])],
      JObj [(''description'', JStr ''d'')]]"
    by (simp add: card_record_def)
  from one_card_per_record [OF r, of "[]"]
  have "\<exists>cards.
        renderProjects
          (JArr [JObj [(''title'', JStr ''A''), (''tags'', JArr [JStr ''x'', JStr ''y''])],
                 JObj [(''description'', JStr ''d'')]]) [] = Inr cards
        \<and> length cards = 2
        \<and> map card_title cards = [''A'', ''Untitled'']
        \<and> map card_desc cards = [''No description yet.'', ''d'']
        \<and> map card_tags cards = [[''x'', ''y''], []]"
    by (auto simp: text_or_def)
  with r show ?thesis by (rule conjI)
qed

section \<open>The landing page when the catalog cannot be fetched\<close>

lemma fetch_failures:
  "fetch_projects NetworkError = None"
  "\<not> response_ok status \<Longrightarrow> fetch_projects (Response status payload) = None"
  "fetch_projects (Response status None) = None"
  by (simp_all add: fetch_projects_def)

text \<open>
  Claim C5. When the request for the catalog fails (it is rejected, the status is not a
  success, or the payload does not parse), \<open>loadProjects\<close> does not raise: the grid holds
  exactly one card, built from the placeholder record with the title \<open>Sample Project\<close>,
  the default slug, a description and no cover.
\<close>

theorem landing_fallback:
  assumes "project_grid pg = Some grid"
    and "net = NetworkError \<or> (\<exists>status payload. net = Response status payload
            \<and> (\<not> response_ok status \<or> payload = None))"
  shows "loadProjects pg net
           = Inr (pg\<lparr>project_grid :=
                       Some [\<lparr>card_attrs = [(''tabindex'', ''0''), (''role'', ''link''),
                                            (''aria-label'', ''Open Sample Project project'')],
                              card_cover = None, card_title = ''Sample Project'',
                              card_desc = ''Replace projects.json to populate real projects.'',
                              card_tags = [''demo'', ''starter''],
                              card_project = sample_project\<rparr>],
                     fetch_calls := fetch_calls pg + 1, warnings := warnings pg + 1\<rparr>)
         \<and> go sample_project = Inr ''project.html?id=sample-project''"
proof -
  have f: "fetch_projects net = None"
    using assms(2) by (auto simp: fetch_failures)
  have r: "card_record sample_project"
    by (simp add: card_record_def sample_project_def)
  have c: "card_view sample_project
      = \<lparr>card_attrs = [(''tabindex'', ''0''), (''role'', ''link''),
                         (''aria-label'', ''Open Sample Project project'')],
         card_cover = None, card_title = ''Sample Project'',
         card_desc = ''Replace projects.json to populate real projects.'',
         card_tags = [''demo'', ''starter''], card_project = sample_project\<rparr>"
    by (simp add: card_view_def text_or_def printed_def) (simp add: sample_project_def)
  have g: "go sample_project = Inr ''project.html?id=sample-project''"
    by (simp add: sample_project_def go_def js_eval enc_eval)
  show ?thesis
    unfolding loadProjects_def assms(1) f fallback_projects_def
    by (simp add: renderProjects_def card_of_view [OF r] bind_err_def c g)
qed

theorem landing_fallback_witness:
  "loadProjects
     \<lparr>project_grid = Some [], project_article = False, project_title = None,
      project_summary = None, project_meta = None, project_body = None,
      project_gallery = None, document_title = ''My Portfolio'', fetch_calls = 0,
      warnings = 0\<rparr>
     (Response 404 (Some (JArr [])))
   = Inr \<lparr>project_grid =
            Some [\<lparr>card_attrs = [(''tabindex'', ''0''), (''role'', ''link''),
                                 (''aria-label'', ''Open Sample Project project'')],
                   card_cover = None, card_title = ''Sample Project'',
                   card_desc = ''Replace projects.json to populate real projects.'',
                   card_tags = [''demo'', ''starter''],
                   card_project = sample_project\<rparr>],
          project_article = False, project_title = None,
          project_summary = None, project_meta = None, project_body = None,
          project_gallery = None, document_title = ''My Portfolio'', fetch_calls = 1,
          warnings = 1\<rparr>"
  using landing_fallback
          [of "\<lparr>project_grid = Some [], project_article = False, project_title = None,
                project_summary = None, project_meta = None, project_body = None,
                project_gallery = None, document_title = ''My Portfolio'', fetch_calls = 0,
                warnings = 0\<rparr>" "[]" "Response 404 (Some (JArr []))"]
  by (simp add: response_ok_def)

section \<open>The resolver\<close>

lemma find_slug_first:
  assumes "list_all slug_record xs"
  shows "find_slug i xs
           = Inr (case List.find (\<lambda>x. record_id x = i) xs of None \<Rightarrow> JUndefined | Some x \<Rightarrow> x)"
  using assms
proof (induction xs)
  case Nil
  show ?case by simp
next
  case (Cons x xs)
  then obtain kvs where x: "x = JObj kvs" and o: "optional_text (js_prop x ''slug'')"
    by (auto simp: slug_record_def dest: is_record_cases)
  have m: "eq_str (js_or (js_prop x ''slug'') (JStr [])) i = (record_id x = i)"
    using o by (auto dest!: optional_text_cases simp: js_or_def record_id_def)
  have g: "get x ''slug'' = Inr (js_prop x ''slug'')"
    by (simp add: x)
  from Cons show ?case
    by (simp add: g m bind_err_def)
qed

lemma find_slug_record:
  "find_slug i xs = Inr p \<Longrightarrow> i \<noteq> [] \<Longrightarrow> truthy p \<Longrightarrow> is_record p"
proof (induction xs)
  case Nil
  then show ?case by simp
next
  case (Cons x xs)
  show ?case
  proof (cases "eq_str (js_or (js_prop x ''slug'') (JStr [])) i")
    case True
    with Cons.prems(2) have "js_prop x ''slug'' \<noteq> JUndefined"
      by (auto simp: js_or_def)
    then have "is_record x"
      by (cases x) simp_all
    moreover from Cons.prems(1) True this have "p = x"
      by (cases x) (simp_all add: bind_err_def)
    ultimately show ?thesis by simp
  next
    case False
    with Cons.prems(1) have "find_slug i xs = Inr p"
      by (cases x) (simp_all add: bind_err_def)
    with Cons.IH Cons.prems(2,3) show ?thesis by simp
  qed
qed

text \<open>
  Claim C3. On a catalog of records the resolver returns the first record, in catalog
  order, whose identifier (its slug, the empty string when absent) is equal to the
  requested id as a string, and \<^verbatim>\<open>undefined\<close> when there is none. Equality is that of the
  two strings: no case folding and no trimming.
\<close>

theorem resolver_first_exact_match:
  assumes "list_all slug_record xs"
  shows "find_project (JArr xs) i
           = Inr (case List.find (\<lambda>x. record_id x = i) xs of
                    None \<Rightarrow> JUndefined
                  | Some x \<Rightarrow> x)"
  using find_slug_first [OF assms] by (simp add: find_project_def)

theorem resolver_first_exact_match_witness:
  "find_project (JArr [JObj [(''slug'', JStr ''abc''), (''title'', JStr ''A'')],
                       JObj [(''slug'', JStr ''abc''), (''title'', JStr ''B'')]]) ''abc''
     = Inr (JObj [(''slug'', JStr ''abc''), (''title'', JStr ''A'')])
   \<and> find_project (JArr [JObj [(''slug'', JStr ''abc''), (''title'', JStr ''A'')],
                         JObj [(''slug'', JStr ''abc''), (''title'', JStr ''B'')]]) ''ABC''
     = Inr JUndefined
   \<and> find_project (JArr [JObj [(''slug'', JStr ''abc''), (''title'', JStr ''A'')],
                         JObj [(''slug'', JStr ''abc''), (''title'', JStr ''B'')]]) '' abc''
     = Inr JUndefined
   \<and> find_project (JArr [JObj [(''slug'', JStr ''abc'')], JObj [(''title'', JStr ''C'')]]) []
     = Inr (JObj [(''title'', JStr ''C'')])"
proof -
  have r: "list_all slug_record
             [JObj [(''slug'', JStr ''abc''), (''title'', JStr ''A'')],
              JObj [(''slug'', JStr ''abc''), (''title'', JStr ''B'')]]"
    and q: "list_all slug_record [JObj [(''slug'', JStr ''abc'')], JObj [(''title'', JStr ''C'')]]"
    by (simp_all add: slug_record_def)
  show ?thesis
    using resolver_first_exact_match [OF r, of "''abc''"]
      resolver_first_exact_match [OF r, of "''ABC''"]
      resolver_first_exact_match [OF r, of "'' abc''"]
      resolver_first_exact_match [OF q, of "[]"]
    by (simp add: record_id_def)
qed

section \<open>The raw title in accessibility strings\<close>

text \<open>
  Claim C10. For a record whose title is absent, the fallback is not applied where the
  title is interpolated: every card built for it has the label \<open>Open undefined project\<close>,
  and every gallery entry that is rendered and has no alt of its own gets the alt text
  \<open>undefined image\<close>.
\<close>

theorem raw_title_in_labels:
  assumes "js_prop p ''title'' = JUndefined"
  shows "(\<forall>c. card_of p = Inr c \<longrightarrow>
            card_attrs c = [(''tabindex'', ''0''), (''role'', ''link''),
                            (''aria-label'', ''Open undefined project'')])
       \<and> (\<forall>it g. \<not> truthy (js_prop it ''alt'')
                  \<and> gallery_entry (js_prop p ''title'') it = Inr (Some g) \<longrightarrow>
            img_alt g = ''undefined image'')"
proof -
  have "card_attrs c = [(''tabindex'', ''0''), (''role'', ''link''),
                        (''aria-label'', ''Open undefined project'')]"
    if "card_of p = Inr c" for c
    using that assms
    by (cases p) (auto simp: card_of_def bind_err_def split: sum.splits if_splits)
  moreover have "img_alt g = ''undefined image''"
    if "\<not> truthy (js_prop it ''alt'')" "gallery_entry (js_prop p ''title'') it = Inr (Some g)"
    for it g
    using that assms
    by (auto simp: gallery_entry_def opt_get_def bind_err_def Let_def
          split: sum.splits if_splits)
  ultimately show ?thesis by blast
qed

theorem raw_title_in_labels_witness:
  "card_of (JObj [(''slug'', JStr ''x'')])
     = Inr \<lparr>card_attrs = [(''tabindex'', ''0''), (''role'', ''link''),
                          (''aria-label'', ''Open undefined project'')],
            card_cover = None, card_title = ''Untitled'', card_desc = ''No description yet.'',
            card_tags = [], card_project = JObj [(''slug'', JStr ''x'')]\<rparr>
   \<and> gallery_entry JUndefined (JStr ''a.png'')
     = Inr (Some \<lparr>item_href = ''a.png'', item_target = ''_blank'',
                  item_rel = ''noopener noreferrer'', img_src = ''a.png'',
                  img_alt = ''undefined image''\<rparr>)"
proof -
  obtain c where c: "card_of (JObj [(''slug'', JStr ''x'')]) = Inr c"
    and c': "card_cover c = None" "card_title c = ''Untitled''"
      "card_desc c = ''No description yet.''" "card_tags c = []"
      "card_project c = JObj [(''slug'', JStr ''x'')]"
    by (simp add: card_of_def js_eval)
  obtain g where g: "gallery_entry (js_prop (JObj [(''slug'', JStr ''x'')]) ''title'') (JStr ''a.png'') = Inr (Some g)"
    and g': "item_href g = ''a.png''" "item_target g = ''_blank''"
      "item_rel g = ''noopener noreferrer''" "img_src g = ''a.png''"
    by (simp add: gallery_entry_def opt_get_def js_eval)
  have t: "js_prop (JObj [(''slug'', JStr ''x'')]) ''title'' = JUndefined" "\<not> truthy (js_prop (JStr ''a.png'') ''alt'')"
    by simp_all
  from raw_title_in_labels [OF t(1)] c g t(2)
  have "card_attrs c = [(''tabindex'', ''0''), (''role'', ''link''),
                            (''aria-label'', ''Open undefined project'')]"
    and "img_alt g = ''undefined image''"
    by blast+
  with c c' g g' show ?thesis
    by simp
qed

section \<open>Rendering a record on the detail page\<close>

lemma when_present_Inr: "when_present el (Inr x) = Inr (map_option (\<lambda>old. x) el)"
  by (cases el) (simp_all add: when_present_def bind_err_def)

lemma set_text_Inr: "dom_text v = Inr s \<Longrightarrow> set_text el v = Inr (map_option (\<lambda>old. s) el)"
  by (cases el) (simp_all add: set_text_def bind_err_def)

lemma summary_text:
  assumes "optional_text s" and "optional_text d"
  shows "dom_text (js_or (js_or s d) (JStr [])) = Inr (text_or (text_of d) s)"
  using assms
  by (auto dest!: optional_text_cases simp: dom_text_def js_or_def text_or_def)

lemma link_total:
  assumes "optional_text v"
  shows "\<exists>ns. (if truthy v then bind_err (to_string v) (\<lambda>url. Inr [external_link url label])
               else Inr []) = Inr ns"
  using assms by (auto dest!: optional_text_cases simp: bind_err_def)

lemma tags_row_total:
  assumes "list_all is_string (elements v)"
  shows "\<exists>row. (case v of
            JArr ts \<Rightarrow>
              if ts \<noteq> [] then bind_err (for_each dom_text ts) (\<lambda>pills. Inr [TagRow pills])
              else Inr []
          | _ \<Rightarrow> Inr []) = Inr row"
  using assms by (cases v) (auto simp: for_each_texts bind_err_def)

lemma render_meta_total:
  assumes "detail_record p"
  shows "\<exists>meta. render_meta p = Inr meta"
proof -
  from assms have t: "list_all is_string (elements (js_prop p ''tags''))"
    and l: "optional_text (js_prop p ''link'')" and r: "optional_text (js_prop p ''repo'')"
    by (simp_all add: detail_record_def)
  from tags_row_total [OF t] obtain row where row: "(case js_prop p ''tags'' of
            JArr ts \<Rightarrow>
              if ts \<noteq> [] then bind_err (for_each dom_text ts) (\<lambda>pills. Inr [TagRow pills])
              else Inr []
          | _ \<Rightarrow> Inr []) = Inr row" ..
  from link_total [OF l, of "''View Live''"] obtain live where live:
    "(if truthy (js_prop p ''link'')
        then bind_err (to_string (js_prop p ''link''))
               (\<lambda>url. Inr [external_link url ''View Live''])
        else Inr []) = Inr live" ..
  from link_total [OF r, of "''Source Code''"] obtain repo where repo:
    "(if truthy (js_prop p ''repo'')
        then bind_err (to_string (js_prop p ''repo''))
               (\<lambda>url. Inr [external_link url ''Source Code''])
        else Inr []) = Inr repo" ..
  show ?thesis
    unfolding render_meta_def row live repo by (simp add: bind_err_def)
qed

lemma render_body_view:
  assumes "detail_record p"
  shows "render_body p = Inr (body_view p)"
proof -
  from assms have b: "list_all is_string (elements (js_prop p ''body''))"
    and h: "optional_text (js_prop p ''bodyHtml'')" and l: "optional_text (js_prop p ''long'')"
    and d: "optional_text (js_prop p ''description'')"
    by (simp_all add: detail_record_def)
  show ?thesis
  proof (cases "js_prop p ''body''")
    case (JArr pars)
    with b show ?thesis
      by (simp add: render_body_def body_view_def for_each_texts bind_err_def)
  qed (use h l d in \<open>auto simp: render_body_def body_view_def truthy_text to_string_text
         dom_text_text bind_err_def\<close>)
qed

lemma gallery_entry_view:
  assumes "optional_text title" and "image_entry it"
  shows "gallery_entry title it = Inr (gallery_view (printed title) it)"
proof -
  have t: "to_string title = Inr (printed title)"
    using assms(1) by (rule to_string_printed)
  show ?thesis
  proof (cases it)
    case (JObj kvs)
    with assms(2) have s: "optional_text (js_prop it ''src'')" and a: "optional_text (js_prop it ''alt'')"
      by (simp_all add: image_entry_def)
    have o: "is_object it = True" "is_string it = False" by (simp_all add: JObj)
    have e: "gallery_entry title it =
      bind_err
        (if truthy (js_prop it ''alt'') then Inr (js_prop it ''alt'')
         else Inr (JStr (printed title @ '' image''))) (\<lambda>alt.
      if \<not> truthy (js_prop it ''src'') then Inr None
      else
        bind_err (to_string (js_prop it ''src'')) (\<lambda>url.
        bind_err (to_string alt) (\<lambda>alt_text.
        Inr (Some \<lparr>item_href = url, item_target = ''_blank'',
                   item_rel = ''noopener noreferrer'', img_src = url,
                   img_alt = alt_text\<rparr>))))"
      unfolding gallery_entry_def opt_get_def Let_def o t by (simp add: bind_err_def)
    have v: "gallery_view (printed title) it =
      (if text_of (js_prop it ''src'') = [] then None
       else Some \<lparr>item_href = text_of (js_prop it ''src''), item_target = ''_blank'',
                  item_rel = ''noopener noreferrer'', img_src = text_of (js_prop it ''src''),
                  img_alt = text_or (printed title @ '' image'') (js_prop it ''alt'')\<rparr>)"
      unfolding gallery_view_def resolved_src_def Let_def o by simp
    show ?thesis
      unfolding e v
      by (simp add: truthy_text [OF s] truthy_text [OF a] to_string_text [OF s]
            to_string_text [OF a] bind_err_def text_or_def)
  qed (simp_all add: gallery_entry_def gallery_view_def resolved_src_def opt_get_def Let_def t
         bind_err_def text_or_def)
qed

lemma map_filter_of_map: "List.map_filter (\<lambda>m. m) (map g xs) = List.map_filter g xs"
  by (induction xs) (simp_all split: option.splits)

lemma render_gallery_view:
  assumes "detail_record p"
  shows "render_gallery p
           = Inr (List.map_filter (gallery_view (printed (js_prop p ''title'')))
                    (elements (js_prop p ''images'')))"
proof -
  from assms have t: "optional_text (js_prop p ''title'')"
    and i: "list_all image_entry (elements (js_prop p ''images''))"
    by (simp_all add: detail_record_def)
  have e: "(case js_prop p ''images'' of JArr its \<Rightarrow> its | _ \<Rightarrow> []) = elements (js_prop p ''images'')"
    by (cases "js_prop p ''images''") simp_all
  have "for_each (gallery_entry (js_prop p ''title'')) (elements (js_prop p ''images''))
          = Inr (map (gallery_view (printed (js_prop p ''title''))) (elements (js_prop p ''images'')))"
    using i by (intro for_each_map gallery_entry_view [OF t]) (simp add: list_all_iff)
  then show ?thesis
    by (simp add: render_gallery_def e bind_err_def map_filter_of_map)
qed

lemma bind_err_Inr: "bind_err (Inr x) f = f x"
  by (simp add: bind_err_def)

lemma render_detail_record:
  assumes "detail_record p"
  shows "\<exists>meta. render_detail p pg
           = Inr (pg\<lparr>project_title :=
                       map_option (\<lambda>old. text_or ''Untitled project'' (js_prop p ''title''))
                         (project_title pg),
                     document_title :=
                       text_or ''Project'' (js_prop p ''title'') @ '' '' @ bullet @ '' My Portfolio'',
                     project_summary :=
                       map_option
                         (\<lambda>old. text_or (text_of (js_prop p ''description'')) (js_prop p ''summary''))
                         (project_summary pg),
                     project_meta := map_option (\<lambda>old. meta) (project_meta pg),
                     project_body := map_option (\<lambda>old. body_view p) (project_body pg),
                     project_gallery :=
                       map_option
                         (\<lambda>old. List.map_filter (gallery_view (printed (js_prop p ''title'')))
                                  (elements (js_prop p ''images'')))
                         (project_gallery pg)\<rparr>)"
proof -
  from assms have t: "optional_text (js_prop p ''title'')"
    and s: "optional_text (js_prop p ''summary'')"
    and d: "optional_text (js_prop p ''description'')"
    by (simp_all add: detail_record_def)
  from render_meta_total [OF assms] obtain meta where m: "render_meta p = Inr meta" ..
  have n: "''Untitled project'' \<noteq> []" "''Project'' \<noteq> []"
    by simp_all
  note steps =
    set_text_Inr [OF dom_text_fallback [OF t n(1)]]
    to_string_fallback [OF t n(2)]
    set_text_Inr [OF summary_text [OF s d]]
    m render_body_view [OF assms] render_gallery_view [OF assms] when_present_Inr
    bind_err_Inr
  show ?thesis
    by (rule exI [where x = meta]) (simp only: render_detail_def steps)
qed

lemma loadProjectDetail_resolved:
  assumes "resolves_to pg gp net p"
  shows "loadProjectDetail pg gp net = render_detail p (pg\<lparr>fetch_calls := fetch_calls pg + 1\<rparr>)"
  using assms
  by (auto simp: resolves_to_def loadProjectDetail_def bind_err_def
        split: option.splits)

lemma loadProjectDetail_record:
  assumes "resolves_to pg gp net p" and "detail_record p"
  obtains pg' where "loadProjectDetail pg gp net = Inr pg'"
    and "project_title pg'
           = map_option (\<lambda>old. text_or ''Untitled project'' (js_prop p ''title'')) (project_title pg)"
    and "document_title pg'
           = text_or ''Project'' (js_prop p ''title'') @ '' '' @ bullet @ '' My Portfolio''"
    and "project_body pg' = map_option (\<lambda>old. body_view p) (project_body pg)"
    and "project_gallery pg'
           = map_option
               (\<lambda>old. List.map_filter (gallery_view (printed (js_prop p ''title'')))
                        (elements (js_prop p ''images'')))
               (project_gallery pg)"
    and "fetch_calls pg' = fetch_calls pg + 1"
proof -
  from render_detail_record [OF assms(2), of "pg\<lparr>fetch_calls := fetch_calls pg + 1\<rparr>"]
  obtain meta pg' where "render_detail p (pg\<lparr>fetch_calls := fetch_calls pg + 1\<rparr>) = Inr pg'"
    and "pg' = pg
           \<lparr>fetch_calls := fetch_calls pg + 1,
            project_title :=
              map_option (\<lambda>old. text_or ''Untitled project'' (js_prop p ''title''))
                (project_title pg),
            document_title :=
              text_or ''Project'' (js_prop p ''title'') @ '' '' @ bullet @ '' My Portfolio'',
            project_summary :=
              map_option
                (\<lambda>old. text_or (text_of (js_prop p ''description'')) (js_prop p ''summary''))
                (project_summary pg),
            project_meta := map_option (\<lambda>old. meta) (project_meta pg),
            project_body := map_option (\<lambda>old. body_view p) (project_body pg),
            project_gallery :=
              map_option
                (\<lambda>old. List.map_filter (gallery_view (printed (js_prop p ''title'')))
                         (elements (js_prop p ''images'')))
                (project_gallery pg)\<rparr>"
    by auto
  then show thesis
    using that [of pg'] loadProjectDetail_resolved [OF assms(1)] by simp
qed

section \<open>The states of the detail page\<close>

lemmas resolve_eval = resolves_to_def requested_id_def fetch_projects_def response_ok_def
  find_project_def bind_err_def js_or_def






text \<open>
  A payload that parses but is not an array is outside the three failure states:
  \<^verbatim>\<open>data.find\<close> is then not a function and the TypeError leaves the entry point.
\<close>

lemma non_array_catalog_raises:
  assumes "project_article pg" and "requested_id gp = Some i" and "i \<noteq> []"
    and "fetch_projects net = Some data" and "\<not> is_array data"
  shows "loadProjectDetail pg gp net = Inl TypeError"
  using assms
  by (cases data) (simp_all add: loadProjectDetail_def find_project_def bind_err_def)




section \<open>The body of the detail page\<close>

text \<open>
  Claim C2. For every resolved record the body holds exactly one representation, chosen
  in this order: when \<open>body\<close> is an array, one plain-text paragraph per entry, in order,
  whatever \<open>bodyHtml\<close>, \<open>long\<close> and \<open>description\<close> hold; else the markup of \<open>bodyHtml\<close>
  when it is present; else one paragraph with \<open>long\<close> when it is present; else one
  paragraph with \<open>description\<close> when it is present; else nothing. A field is present,
  as the script tests it, when it holds a non-empty string.
\<close>

theorem body_by_priority:
  assumes "resolves_to pg gp net p" and "detail_record p" and "project_body pg = Some old"
  shows "\<exists>pg'. loadProjectDetail pg gp net = Inr pg'
     \<and> (is_array (js_prop p ''body'') \<longrightarrow>
          project_body pg' = Some (map (\<lambda>x. Para (text_of x)) (elements (js_prop p ''body''))))
     \<and> (\<not> is_array (js_prop p ''body'') \<and> text_of (js_prop p ''bodyHtml'') \<noteq> [] \<longrightarrow>
          project_body pg' = Some [RawHtml (text_of (js_prop p ''bodyHtml''))])
     \<and> (\<not> is_array (js_prop p ''body'') \<and> text_of (js_prop p ''bodyHtml'') = []
          \<and> text_of (js_prop p ''long'') \<noteq> [] \<longrightarrow>
          project_body pg' = Some [Para (text_of (js_prop p ''long''))])
     \<and> (\<not> is_array (js_prop p ''body'') \<and> text_of (js_prop p ''bodyHtml'') = []
          \<and> text_of (js_prop p ''long'') = [] \<and> text_of (js_prop p ''description'') \<noteq> [] \<longrightarrow>
          project_body pg' = Some [Para (text_of (js_prop p ''description''))])
     \<and> (\<not> is_array (js_prop p ''body'') \<and> text_of (js_prop p ''bodyHtml'') = []
          \<and> text_of (js_prop p ''long'') = [] \<and> text_of (js_prop p ''description'') = [] \<longrightarrow>
          project_body pg' = Some [])"
proof -
  from assms(1,2) obtain pg' where l: "loadProjectDetail pg gp net = Inr pg'"
    and b: "project_body pg' = map_option (\<lambda>old. body_view p) (project_body pg)"
    by (rule loadProjectDetail_record)
  have "project_body pg' = Some (body_view p)"
    by (simp add: b assms(3))
  with l show ?thesis
    by (intro exI [where x = pg']) (simp add: body_view_def)
qed

theorem body_by_priority_witness:
  "(\<exists>pg'. loadProjectDetail
            \<lparr>project_grid = None, project_article = True, project_title = Some [],
       project_summary = Some [], project_meta = Some [], project_body = Some [],
       project_gallery = Some [], document_title = ''Project'', fetch_calls = 0,
       warnings = 0\<rparr> (Some (map_of [(''id'', ''demo'')]))
            (Response 200 (Some (JArr [JObj [(''slug'', JStr ''demo''), (''body'', JArr [JStr ''a'', JStr ''b'']),
             (''bodyHtml'', JStr ''<b>x</b>''), (''long'', JStr ''l''),
             (''description'', JStr ''d'')]]))) = Inr pg'
          \<and> project_body pg' = Some [Para ''a'', Para ''b''])
   \<and> (\<exists>pg'. loadProjectDetail
            \<lparr>project_grid = None, project_article = True, project_title = Some [],
       project_summary = Some [], project_meta = Some [], project_body = Some [],
       project_gallery = Some [], document_title = ''Project'', fetch_calls = 0,
       warnings = 0\<rparr> (Some (map_of [(''id'', ''demo'')]))
            (Response 200 (Some (JArr [JObj [(''slug'', JStr ''demo''), (''bodyHtml'', JStr ''<b>x</b>''),
             (''long'', JStr ''l''), (''description'', JStr ''d'')]]))) = Inr pg'
          \<and> project_body pg' = Some [RawHtml ''<b>x</b>''])"
proof -
  let ?pg = "\<lparr>project_grid = None, project_article = True, project_title = Some [],
       project_summary = Some [], project_meta = Some [], project_body = Some [],
       project_gallery = Some [], document_title = ''Project'', fetch_calls = 0,
       warnings = 0\<rparr>"
  let ?gp = "(Some (map_of [(''id'', ''demo'')]))"
  let ?p = "JObj [(''slug'', JStr ''demo''), (''body'', JArr [JStr ''a'', JStr ''b'']),
             (''bodyHtml'', JStr ''<b>x</b>''), (''long'', JStr ''l''),
             (''description'', JStr ''d'')]"
  let ?q = "JObj [(''slug'', JStr ''demo''), (''bodyHtml'', JStr ''<b>x</b>''),
             (''long'', JStr ''l''), (''description'', JStr ''d'')]"
  have p: "resolves_to ?pg ?gp (Response 200 (Some (JArr [?p]))) ?p" "detail_record ?p"
    and q: "resolves_to ?pg ?gp (Response 200 (Some (JArr [?q]))) ?q" "detail_record ?q"
    by (simp_all add: resolve_eval detail_record_def)
  have b: "project_body ?pg = Some []" by simp
  from body_by_priority [OF p b] body_by_priority [OF q b]
  show ?thesis by simp
qed

section \<open>The gallery\<close>

text \<open>
  Claim C4. The gallery of a resolved record holds, in order, one entry for each element
  of \<open>images\<close> that resolves to a \<open>src\<close> (the element itself when it is a string, else
  its \<open>src\<close> field); the other elements are skipped, and \<open>images\<close> counts as empty when
  it is absent or not an array. The alt text of an entry is the element's own \<open>alt\<close>
  when it has one, else the title followed by \<open>image\<close>.
\<close>

theorem gallery_normalised:
  assumes "resolves_to pg gp net p" and "detail_record p" and "project_gallery pg = Some old"
  shows "\<exists>pg'. loadProjectDetail pg gp net = Inr pg'
     \<and> project_gallery pg'
         = Some (List.map_filter (gallery_view (printed (js_prop p ''title'')))
                   (elements (js_prop p ''images'')))
     \<and> (\<not> is_array (js_prop p ''images'') \<longrightarrow> project_gallery pg' = Some [])"
proof -
  from assms(1,2) obtain pg' where l: "loadProjectDetail pg gp net = Inr pg'"
    and g: "project_gallery pg'
           = map_option
               (\<lambda>old. List.map_filter (gallery_view (printed (js_prop p ''title'')))
                        (elements (js_prop p ''images'')))
               (project_gallery pg)"
    by (rule loadProjectDetail_record)
  have e: "\<not> is_array (js_prop p ''images'') \<Longrightarrow> elements (js_prop p ''images'') = []"
    by (cases "js_prop p ''images''") simp_all
  from l g show ?thesis
    by (intro exI [where x = pg']) (simp add: assms(3) e)
qed

theorem gallery_normalised_witness:
  "(\<exists>pg'. loadProjectDetail
            \<lparr>project_grid = None, project_article = True, project_title = Some [],
       project_summary = Some [], project_meta = Some [], project_body = Some [],
       project_gallery = Some [], document_title = ''Project'', fetch_calls = 0,
       warnings = 0\<rparr> (Some (map_of [(''id'', ''demo'')]))
            (Response 200 (Some (JArr [JObj [(''slug'', JStr ''demo''), (''title'', JStr ''T''),
             (''images'', JArr [JStr ''x.png'',
                                JObj [(''src'', JStr ''y.png''), (''alt'', JStr ''Y'')]])]]))) = Inr pg'
          \<and> project_gallery pg'
              = Some [\<lparr>item_href = ''x.png'', item_target = ''_blank'',
                       item_rel = ''noopener noreferrer'', img_src = ''x.png'',
                       img_alt = ''T image''\<rparr>,
                      \<lparr>item_href = ''y.png'', item_target = ''_blank'',
                       item_rel = ''noopener noreferrer'', img_src = ''y.png'',
                       img_alt = ''Y''\<rparr>])
   \<and> (\<exists>pg'. loadProjectDetail
            \<lparr>project_grid = None, project_article = True, project_title = Some [],
       project_summary = Some [], project_meta = Some [], project_body = Some [],
       project_gallery = Some [], document_title = ''Project'', fetch_calls = 0,
       warnings = 0\<rparr> (Some (map_of [(''id'', ''demo'')]))
            (Response 200 (Some (JArr [JObj [(''slug'', JStr ''demo''), (''title'', JStr ''T''), (''images'', JArr [JObj []])]]))) = Inr pg'
          \<and> project_gallery pg' = Some [])"
proof -
  let ?pg = "\<lparr>project_grid = None, project_article = True, project_title = Some [],
       project_summary = Some [], project_meta = Some [], project_body = Some [],
       project_gallery = Some [], document_title = ''Project'', fetch_calls = 0,
       warnings = 0\<rparr>"
  let ?gp = "(Some (map_of [(''id'', ''demo'')]))"
  let ?p = "JObj [(''slug'', JStr ''demo''), (''title'', JStr ''T''),
             (''images'', JArr [JStr ''x.png'',
                                JObj [(''src'', JStr ''y.png''), (''alt'', JStr ''Y'')]])]"
  let ?q = "JObj [(''slug'', JStr ''demo''), (''title'', JStr ''T''), (''images'', JArr [JObj []])]"
  have p: "resolves_to ?pg ?gp (Response 200 (Some (JArr [?p]))) ?p" "detail_record ?p"
    and q: "resolves_to ?pg ?gp (Response 200 (Some (JArr [?q]))) ?q" "detail_record ?q"
    by (simp_all add: resolve_eval detail_record_def image_entry_def)
  have g: "project_gallery ?pg = Some []" by simp
  from gallery_normalised [OF p g] gallery_normalised [OF q g]
  show ?thesis
    by (simp add: gallery_view_def resolved_src_def printed_def text_or_def)
qed

section \<open>The title of the detail page and of the tab\<close>

text \<open>
  Claim C7 does not hold as stated: for a record without a title the page shows
  \<open>Untitled project\<close> while the tab title is built from \<open>Project\<close>, not from the
  rendered title.
\<close>

theorem tab_title_counterexample:
  "loadProjectDetail
     \<lparr>project_grid = None, project_article = True, project_title = Some [],
       project_summary = Some [], project_meta = Some [], project_body = Some [],
       project_gallery = Some [], document_title = ''Project'', fetch_calls = 0,
       warnings = 0\<rparr> (Some (map_of [(''id'', ''demo'')]))
     (Response 200 (Some (JArr [JObj [(''slug'', JStr ''demo'')]])))
   = Inr \<lparr>project_grid = None, project_article = True,
          project_title = Some ''Untitled project'', project_summary = Some [],
          project_meta = Some [], project_body = Some [], project_gallery = Some [],
          document_title = ''Project'' @ '' '' @ bullet @ '' My Portfolio'',
          fetch_calls = 1, warnings = 0\<rparr>
   \<and> ''Project'' @ '' '' @ bullet @ '' My Portfolio''
     \<noteq> ''Untitled project'' @ '' '' @ bullet @ '' My Portfolio''"
  by (simp add: loadProjectDetail_def requested_id_def fetch_projects_def response_ok_def
        find_project_def render_detail_def render_meta_def render_body_def render_gallery_def
        js_eval)

text \<open>
  Claim C7, amended. For every resolved record the rendered title is the record's title,
  or \<open>Untitled project\<close> when the title is absent or empty, and it is never empty. The
  tab title is the record's title followed by the bullet and \<open>My Portfolio\<close>, with
  \<open>Project\<close> in place of a title that is absent or empty.
\<close>

theorem detail_titles:
  assumes "resolves_to pg gp net p" and "detail_record p" and "project_title pg = Some old"
  shows "\<exists>pg'. loadProjectDetail pg gp net = Inr pg'
     \<and> project_title pg' = Some (text_or ''Untitled project'' (js_prop p ''title''))
     \<and> project_title pg' \<noteq> Some []
     \<and> (js_prop p ''title'' = JUndefined \<longrightarrow> project_title pg' = Some ''Untitled project'')
     \<and> document_title pg'
         = text_or ''Project'' (js_prop p ''title'') @ '' '' @ bullet @ '' My Portfolio''"
proof -
  from assms(1,2) obtain pg' where l: "loadProjectDetail pg gp net = Inr pg'"
    and t: "project_title pg'
           = map_option (\<lambda>old. text_or ''Untitled project'' (js_prop p ''title'')) (project_title pg)"
    and d: "document_title pg'
           = text_or ''Project'' (js_prop p ''title'') @ '' '' @ bullet @ '' My Portfolio''"
    by (rule loadProjectDetail_record)
  from l t d show ?thesis
    by (intro exI [where x = pg']) (simp add: assms(3) text_or_def)
qed

theorem detail_titles_witness:
  "(\<exists>pg'. loadProjectDetail
            \<lparr>project_grid = None, project_article = True, project_title = Some [],
       project_summary = Some [], project_meta = Some [], project_body = Some [],
       project_gallery = Some [], document_title = ''Project'', fetch_calls = 0,
       warnings = 0\<rparr> (Some (map_of [(''id'', ''demo'')]))
            (Response 200 (Some (JArr [JObj [(''slug'', JStr ''demo''), (''title'', JStr ''Atlas'')]]))) = Inr pg'
          \<and> project_title pg' = Some ''Atlas''
          \<and> document_title pg' = ''Atlas'' @ '' '' @ bullet @ '' My Portfolio'')
   \<and> (\<exists>pg'. loadProjectDetail
            \<lparr>project_grid = None, project_article = True, project_title = Some [],
       project_summary = Some [], project_meta = Some [], project_body = Some [],
       project_gallery = Some [], document_title = ''Project'', fetch_calls = 0,
       warnings = 0\<rparr> (Some (map_of [(''id'', ''demo'')]))
            (Response 200 (Some (JArr [JObj [(''slug'', JStr ''demo'')]]))) = Inr pg'
          \<and> project_title pg' = Some ''Untitled project''
          \<and> document_title pg' = ''Project'' @ '' '' @ bullet @ '' My Portfolio'')"
proof -
  let ?pg = "\<lparr>project_grid = None, project_article = True, project_title = Some [],
       project_summary = Some [], project_meta = Some [], project_body = Some [],
       project_gallery = Some [], document_title = ''Project'', fetch_calls = 0,
       warnings = 0\<rparr>"
  let ?gp = "(Some (map_of [(''id'', ''demo'')]))"
  let ?p = "JObj [(''slug'', JStr ''demo''), (''title'', JStr ''Atlas'')]"
  let ?q = "JObj [(''slug'', JStr ''demo'')]"
  have p: "resolves_to ?pg ?gp (Response 200 (Some (JArr [?p]))) ?p" "detail_record ?p"
    and q: "resolves_to ?pg ?gp (Response 200 (Some (JArr [?q]))) ?q" "detail_record ?q"
    by (simp_all add: resolve_eval detail_record_def)
  have t: "project_title ?pg = Some []" by simp
  from detail_titles [OF p t] detail_titles [OF q t]
  show ?thesis
    by (auto simp: text_or_def)
qed

end
